theory Spec2Isabelle
  imports Main
begin

section \<open>The checkout form: values, external libraries, schema\<close>

text \<open>
  The component \<^verbatim>\<open>CheckoutForm\<close> (components/blocks/CheckoutForm/index.tsx) glues a
  form-state hook to a validation hook. Its own code is the schema of the four fields
  (with two custom predicates and the message tables), the two formatting change
  handlers, the effect that synchronises the model with the validator, the submit
  handler and the \<^verbatim>\<open>disabled\<close> expression of the button. Everything it imports
  from a package is kept apart below.
\<close>

subsection \<open>JavaScript values of a field\<close>

text \<open>
  A field of the model is \<^verbatim>\<open>string | null\<close>; a schema rule may also produce
  \<^verbatim>\<open>undefined\<close>. A string is a list of code units.
\<close>

datatype jvalue = JUndefined | JNull | JString string

text \<open>\<^verbatim>\<open>type TypeCheckoutFormDefaultValues\<close>: \<open>None\<close> is \<^verbatim>\<open>null\<close>.\<close>

record TypeCheckoutFormDefaultValues =
  email :: "string option"
  card_number :: "string option"
  card_expire :: "string option"
  cvv :: "string option"

text \<open>\<^verbatim>\<open>type TypeParseCardExpiry\<close>; the type \<^verbatim>\<open>number\<close> is left open.\<close>

record 'n TypeParseCardExpiry =
  month :: 'n
  year :: 'n

text \<open>\<^verbatim>\<open>const defaultState\<close>.\<close>

definition defaultState :: TypeCheckoutFormDefaultValues where
  "defaultState = \<lparr> email = None, card_number = None, card_expire = None, cvv = None \<rparr>"

text \<open>The keys of the model, and the name each key has in the source.\<close>

datatype key = Email | CardNumber | CardExpire | Cvv

fun key_name :: "key \<Rightarrow> string" where
  "key_name Email = ''email''"
| "key_name CardNumber = ''card_number''"
| "key_name CardExpire = ''card_expire''"
| "key_name Cvv = ''cvv''"

fun get_field :: "key \<Rightarrow> TypeCheckoutFormDefaultValues \<Rightarrow> string option" where
  "get_field Email d = email d"
| "get_field CardNumber d = card_number d"
| "get_field CardExpire d = card_expire d"
| "get_field Cvv d = cvv d"

fun set_field :: "key \<Rightarrow> string option \<Rightarrow> TypeCheckoutFormDefaultValues
    \<Rightarrow> TypeCheckoutFormDefaultValues" where
  "set_field Email v d = d\<lparr>email := v\<rparr>"
| "set_field CardNumber v d = d\<lparr>card_number := v\<rparr>"
| "set_field CardExpire v d = d\<lparr>card_expire := v\<rparr>"
| "set_field Cvv v d = d\<lparr>cvv := v\<rparr>"

definition js :: "string option \<Rightarrow> jvalue" where
  "js v = (case v of None \<Rightarrow> JNull | Some s \<Rightarrow> JString s)"

subsection \<open>The imported functions, as parameters\<close>

text \<open>
  The functions imported from \<^verbatim>\<open>creditcardutils\<close> are not part of the repository:
  they are parameters of the model, and every theorem holds for all of them.
  \<open>isEmailValid\<close> is the character-level part (allowed characters, lengths) of the
  address check behind \<^verbatim>\<open>Joi.string().email({tlds: {allow: false}})\<close>; the structural
  part of that check is \<open>email_structure\<close> below. \<open>defaultMessage\<close> is the schema
  library's built-in message for a label and an error code that the schema's own table
  does not override.
\<close>

record 'n libs =
  validateCardNumber :: "string \<Rightarrow> bool"
  formatCardNumber :: "string \<Rightarrow> string"
  formatCardExpiry :: "string \<Rightarrow> string"
  parseCardType :: "string \<Rightarrow> string option"
  validateCardExpiry :: "'n \<Rightarrow> 'n \<Rightarrow> bool"
  parseCardExpiry :: "string \<Rightarrow> 'n TypeParseCardExpiry"
  isEmailValid :: "string \<Rightarrow> bool"
  defaultMessage :: "string \<Rightarrow> string \<Rightarrow> string"

subsection \<open>Schemas\<close>

text \<open>
  What a custom rule returns: \<^verbatim>\<open>helpers.error(code)\<close> or a value.
\<close>

datatype ret = Report string | Value jvalue

datatype rule = EmailRule | CustomRule "string \<Rightarrow> ret" | LengthRule nat

text \<open>
  A string schema: the \<^verbatim>\<open>.required()\<close> flag, the rules in the order the chain
  adds them, and the table given to \<^verbatim>\<open>.messages\<close>.
\<close>

record schema =
  required :: bool
  rules :: "rule list"
  messages :: "(string \<times> string) list"

text \<open>An error as the validator exposes it: the code and the message shown.\<close>

record joi_error =
  code :: string
  message :: string

text \<open>Lines 81-90.\<close>

definition email_schema :: schema where
  "email_schema = \<lparr> required = True, rules = [EmailRule],
     messages = [(''string.empty'', ''Required''),
                 (''string.email'', ''Must be a valid email''),
                 (''any.required'', ''Required'')] \<rparr>"

text \<open>Lines 92-106: the custom predicate of the card number.\<close>

definition card_number_custom :: "'n libs \<Rightarrow> string \<Rightarrow> ret" where
  "card_number_custom L v =
     (if v \<noteq> [] then
        (if \<not> validateCardNumber L v then Report ''string.cardNumber''
         else if parseCardType L v \<noteq> Some ''mastercard'' \<and> parseCardType L v \<noteq> Some ''visa''
           then Report ''string.wrongCardType''
         else Value (JString v))
      else Value (JString v))"

text \<open>Lines 91-113.\<close>

definition card_number_schema :: "'n libs \<Rightarrow> schema" where
  "card_number_schema L = \<lparr> required = True, rules = [CustomRule (card_number_custom L)],
     messages = [(''string.empty'', ''Required''),
                 (''string.cardNumber'', ''Must be a valid card''),
                 (''string.wrongCardType'', ''Wrong card number''),
                 (''any.required'', ''Required'')] \<rparr>"

text \<open>
  Lines 116-127: the custom predicate of the expiry date. Its last statement is a bare
  \<^verbatim>\<open>return\<close>, so a date that passes yields \<^verbatim>\<open>undefined\<close>.
\<close>

definition card_expire_custom :: "'n libs \<Rightarrow> string \<Rightarrow> ret" where
  "card_expire_custom L v =
     (let timeExpiry = parseCardExpiry L v in
      if \<not> validateCardExpiry L (month timeExpiry) (year timeExpiry)
        then Report ''string.wrong''
      else Value JUndefined)"

text \<open>Lines 114-132.\<close>

definition card_expire_schema :: "'n libs \<Rightarrow> schema" where
  "card_expire_schema L = \<lparr> required = True, rules = [CustomRule (card_expire_custom L)],
     messages = [(''string.empty'', ''Required''),
                 (''string.wrong'', ''Wrong date''),
                 (''any.required'', ''Required'')] \<rparr>"

text \<open>Lines 133-137.\<close>

definition cvv_schema :: schema where
  "cvv_schema = \<lparr> required = True, rules = [LengthRule 3],
     messages = [(''string.empty'', ''Required''),
                 (''string.length'', ''Need 3 digits''),
                 (''any.required'', ''Required'')] \<rparr>"

text \<open>Lines 80-138: \<^verbatim>\<open>Joi.object({...})\<close>, the keys in the order written.\<close>

definition checkout_schema :: "'n libs \<Rightarrow> (key \<times> schema) list" where
  "checkout_schema L =
     [(Email, email_schema), (CardNumber, card_number_schema L),
      (CardExpire, card_expire_schema L), (Cvv, cvv_schema)]"

definition schema_of :: "'n libs \<Rightarrow> key \<Rightarrow> schema" where
  "schema_of L k = (case k of Email \<Rightarrow> email_schema | CardNumber \<Rightarrow> card_number_schema L
     | CardExpire \<Rightarrow> card_expire_schema L | Cvv \<Rightarrow> cvv_schema)"

section \<open>The schema library\<close>

text \<open>
  Modelled from the spec: the schema library (package \<^verbatim>\<open>joi\<close>) is imported, not part
  of the repository. The spec gives each field the rule "required; format-specific check"
  with one message per failure; the definitions below are the library's evaluation of a
  string schema as far as the four schemas above use it. A value that is absent fails
  \<^verbatim>\<open>any.required\<close> when the schema is required; a value that is not a string fails
  \<^verbatim>\<open>string.base\<close>; the empty string fails \<^verbatim>\<open>string.empty\<close>; any of these ends the
  validation of the value. Otherwise the rules run in order, each on the value the
  previous one returned, and with \<open>abortEarly\<close> the first failing rule ends the run.
\<close>

text \<open>
  Modelled from the spec: the address check of the schema library is imported. The spec
  asks for the "email shape"; the structure the library requires of an address is one
  \<^verbatim>\<open>@\<close>, a non-empty local part before it, and after it a domain of at least
  \<open>minDomainSegments\<close> segments separated by dots, two by default. The option
  \<^verbatim>\<open>tlds: {allow: false}\<close> of line 83 switches off the list of known top-level
  domains, nothing else, so no such list appears here. \<open>split_on\<close> is
  \<^verbatim>\<open>String.prototype.split\<close> with a separator of one character.
\<close>

definition minDomainSegments :: nat where
  "minDomainSegments = 2"

fun split_on :: "char \<Rightarrow> string \<Rightarrow> string list" where
  "split_on c [] = [[]]"
| "split_on c (x # xs) =
     (if x = c then [] # split_on c xs
      else (case split_on c xs of [] \<Rightarrow> [[x]] | y # ys \<Rightarrow> (x # y) # ys))"

definition email_structure :: "string \<Rightarrow> bool" where
  "email_structure s =
     (case split_on (CHR ''@'') s of
        [local_part, domain] \<Rightarrow>
          local_part \<noteq> [] \<and> domain \<noteq> [] \<and> minDomainSegments \<le> length (split_on (CHR ''.'') domain)
      | _ \<Rightarrow> False)"

definition address_valid :: "'n libs \<Rightarrow> string \<Rightarrow> bool" where
  "address_valid L s = (email_structure s \<and> isEmailValid L s)"

fun apply_rule :: "'n libs \<Rightarrow> rule \<Rightarrow> string \<Rightarrow> ret" where
  "apply_rule L EmailRule s = (if address_valid L s then Value (JString s) else Report ''string.email'')"
| "apply_rule L (CustomRule method) s = method s"
| "apply_rule L (LengthRule n) s = (if length s = n then Value (JString s) else Report ''string.length'')"

text \<open>
  The built-in rules read a string; once a rule has replaced the value by something
  else, no further rule is applied (none of the four schemas has a further rule).
\<close>

fun run_rules :: "'n libs \<Rightarrow> bool \<Rightarrow> rule list \<Rightarrow> jvalue \<Rightarrow> string list \<Rightarrow> jvalue \<times> string list" where
  "run_rules L abortEarly [] v errs = (v, errs)"
| "run_rules L abortEarly (r # rs) v errs =
     (case v of
        JString s \<Rightarrow>
          (case apply_rule L r s of
             Report c \<Rightarrow> if abortEarly then (v, errs @ [c]) else run_rules L abortEarly rs v (errs @ [c])
           | Value v' \<Rightarrow> run_rules L abortEarly rs v' errs)
      | _ \<Rightarrow> (v, errs))"

definition validate_codes :: "'n libs \<Rightarrow> bool \<Rightarrow> schema \<Rightarrow> jvalue \<Rightarrow> jvalue \<times> string list" where
  "validate_codes L abortEarly sch v =
     (case v of
        JUndefined \<Rightarrow> (if required sch then (v, [''any.required'']) else (v, []))
      | JNull \<Rightarrow> (v, [''string.base''])
      | JString s \<Rightarrow> (if s = [] then (v, [''string.empty'']) else run_rules L abortEarly (rules sch) v []))"

definition render_error :: "'n libs \<Rightarrow> string \<Rightarrow> schema \<Rightarrow> string \<Rightarrow> joi_error" where
  "render_error L label sch c =
     \<lparr> code = c,
       message = (case map_of (messages sch) c of Some m \<Rightarrow> m | None \<Rightarrow> defaultMessage L label c) \<rparr>"

text \<open>The validated value and the errors of one value under one schema.\<close>

definition validate :: "'n libs \<Rightarrow> bool \<Rightarrow> string \<Rightarrow> schema \<Rightarrow> jvalue \<Rightarrow> jvalue \<times> joi_error list" where
  "validate L abortEarly label sch v =
     (let (v', cs) = validate_codes L abortEarly sch v in (v', map (render_error L label sch) cs))"

text \<open>
  The keys of an object schema are validated in order; with \<open>abortEarly\<close> the first key
  that fails ends the validation.
\<close>

fun validate_keys :: "'n libs \<Rightarrow> bool \<Rightarrow> (key \<times> schema) list \<Rightarrow> TypeCheckoutFormDefaultValues
    \<Rightarrow> (key \<times> joi_error) list" where
  "validate_keys L abortEarly [] d = []"
| "validate_keys L abortEarly ((k, sch) # ks) d =
     (let es = map (Pair k) (snd (validate L abortEarly (key_name k) sch (js (get_field k d))))
      in if abortEarly \<and> es \<noteq> [] then es else es @ validate_keys L abortEarly ks d)"

text \<open>The messages one field gets, and whether it passes.\<close>

definition field_messages :: "'n libs \<Rightarrow> bool \<Rightarrow> key \<Rightarrow> jvalue \<Rightarrow> string list" where
  "field_messages L abortEarly k v =
     map message (snd (validate L abortEarly (key_name k) (schema_of L k) v))"

definition field_passes :: "'n libs \<Rightarrow> bool \<Rightarrow> key \<Rightarrow> jvalue \<Rightarrow> bool" where
  "field_passes L abortEarly k v = (snd (validate L abortEarly (key_name k) (schema_of L k) v) = [])"

section \<open>The two hooks\<close>

text \<open>
  Modelled from the spec: the validation hook (package \<^verbatim>\<open>react-joi\<close>) is imported, not
  part of the repository. The spec calls it the validation holder: it holds the schema
  and "a derived result: per-field error messages and an aggregate valid/invalid flag",
  "recomputed each time" the values change. The component reads three parts of its
  state: \<^verbatim>\<open>$data\<close>, \<^verbatim>\<open>$errors\<close> and \<^verbatim>\<open>$auto_invalid\<close>. \<open>setData\<close> stores the values it is
  given and derives the other two from them.
\<close>

record validator_state =
  data :: TypeCheckoutFormDefaultValues
  errors :: "key \<Rightarrow> joi_error list"
  auto_invalid :: bool

definition setData :: "'n libs \<Rightarrow> bool \<Rightarrow> TypeCheckoutFormDefaultValues \<Rightarrow> validator_state
    \<Rightarrow> validator_state" where
  "setData L abortEarly d vs =
     (let es = validate_keys L abortEarly (checkout_schema L) d in
      vs\<lparr> data := d,
          errors := (\<lambda>k. map snd (filter (\<lambda>ke. fst ke = k) es)),
          auto_invalid := (es \<noteq> []) \<rparr>)"

definition useValidator :: "'n libs \<Rightarrow> bool \<Rightarrow> TypeCheckoutFormDefaultValues \<Rightarrow> validator_state" where
  "useValidator L abortEarly initialData =
     setData L abortEarly initialData \<lparr> data = initialData, errors = (\<lambda>k. []), auto_invalid = False \<rparr>"

section \<open>The component\<close>

text \<open>
  The state of a mounted form: the model of the form-state hook (package
  \<^verbatim>\<open>react-use-models\<close>) and the state of the validation hook. The props other than the
  callback are \<open>loading\<close> and \<open>submitText\<close>; a call of the callback is an effect.
\<close>

record component =
  models :: TypeCheckoutFormDefaultValues
  state :: validator_state

record CheckoutFormProps =
  loading :: bool
  submitText :: string

datatype effect = PreventDefault | OnSuccess TypeCheckoutFormDefaultValues

text \<open>\<^verbatim>\<open>updateModel(name, value)\<close> of the form-state hook.\<close>

definition updateModel :: "key \<Rightarrow> string \<Rightarrow> component \<Rightarrow> component" where
  "updateModel k v c = c\<lparr> models := set_field k (Some v) (models c) \<rparr>"

text \<open>Lines 156-167: the two formatting change handlers.\<close>

definition formatter_cardNumber :: "'n libs \<Rightarrow> string \<Rightarrow> component \<Rightarrow> component" where
  "formatter_cardNumber L target_value c =
     (let v = formatCardNumber L target_value in updateModel CardNumber v c)"

definition formatter_cardExpire :: "'n libs \<Rightarrow> string \<Rightarrow> component \<Rightarrow> component" where
  "formatter_cardExpire L target_value c =
     (let v = formatCardExpiry L target_value in updateModel CardExpire v c)"

text \<open>
  The change handler \<^verbatim>\<open>register.input\<close> binds to each input (lines 184, 205, 237, 255):
  the formatter where one is given, the hook's own update of the named field otherwise.
\<close>

fun onChange :: "'n libs \<Rightarrow> key \<Rightarrow> string \<Rightarrow> component \<Rightarrow> component" where
  "onChange L Email target_value c = updateModel Email target_value c"
| "onChange L CardNumber target_value c = formatter_cardNumber L target_value c"
| "onChange L CardExpire target_value c = formatter_cardExpire L target_value c"
| "onChange L Cvv target_value c = updateModel Cvv target_value c"

text \<open>Lines 169-172: the effect \<^verbatim>\<open>setData(models)\<close>, run when \<^verbatim>\<open>models\<close> has changed.\<close>

definition sync :: "'n libs \<Rightarrow> bool \<Rightarrow> component \<Rightarrow> component" where
  "sync L abortEarly c = c\<lparr> state := setData L abortEarly (models c) (state c) \<rparr>"

text \<open>Lines 150-154.\<close>

definition onSubmit :: "component \<Rightarrow> effect list" where
  "onSubmit c = [PreventDefault, OnSuccess (data (state c))]"

text \<open>Lines 141-148.\<close>

fun join :: "string \<Rightarrow> string list \<Rightarrow> string" where
  "join sep [] = []"
| "join sep [x] = x"
| "join sep (x # y # ys) = x @ sep @ join sep (y # ys)"

definition getErrors :: "component \<Rightarrow> key \<Rightarrow> string" where
  "getErrors c field = join '','' (map message (errors (state c) field))"

text \<open>Line 279: \<^verbatim>\<open>disabled={state.$auto_invalid || loading}\<close>.\<close>

definition Button_disabled :: "CheckoutFormProps \<Rightarrow> component \<Rightarrow> bool" where
  "Button_disabled P c = (auto_invalid (state c) \<or> loading P)"

text \<open>
  The events of a mounted form. A change of an input runs its change handler and then
  the effect; a submit runs the submit handler and leaves the state as it is.
\<close>

datatype event = Change key string | Submit

fun handle :: "'n libs \<Rightarrow> bool \<Rightarrow> event \<Rightarrow> component \<Rightarrow> component \<times> effect list" where
  "handle L abortEarly (Change k target_value) c = (sync L abortEarly (onChange L k target_value c), [])"
| "handle L abortEarly Submit c = (c, onSubmit c)"

fun run :: "'n libs \<Rightarrow> bool \<Rightarrow> event list \<Rightarrow> component \<Rightarrow> component" where
  "run L abortEarly [] c = c"
| "run L abortEarly (e # es) c = run L abortEarly es (fst (handle L abortEarly e c))"

definition mount :: "'n libs \<Rightarrow> bool \<Rightarrow> component" where
  "mount L abortEarly =
     sync L abortEarly \<lparr> models = defaultState, state = useValidator L abortEarly defaultState \<rparr>"

text \<open>A field is empty when it was never typed into or holds the empty string.\<close>

definition is_empty :: "string option \<Rightarrow> bool" where
  "is_empty v = (v = None \<or> v = Some [])"

section \<open>Sample instances of the imported functions\<close>

text \<open>
  Small stand-ins for the imported functions, used only to evaluate the model at
  concrete inputs. A number is an \<open>int\<close>; a date is read as two digits, a slash, two
  digits, and is valid from the year 30 on.
\<close>

definition digit_val :: "char \<Rightarrow> int" where
  "digit_val ch = int (of_char ch) - 48"

definition is_digit :: "char \<Rightarrow> bool" where
  "is_digit ch = (48 \<le> (of_char ch :: nat) \<and> (of_char ch :: nat) \<le> 57)"

definition sample_parse :: "string \<Rightarrow> int TypeParseCardExpiry" where
  "sample_parse s =
     (case s of
        [a, b, sl, c, d] \<Rightarrow> \<lparr> month = 10 * digit_val a + digit_val b, year = 10 * digit_val c + digit_val d \<rparr>
      | _ \<Rightarrow> \<lparr> month = 0, year = 0 \<rparr>)"

definition sample_libs :: "int libs" where
  "sample_libs =
     \<lparr> validateCardNumber = (\<lambda>s. s = ''4242 4242 4242 4242'' \<or> s = ''3782 822463 10005''),
       formatCardNumber = (\<lambda>s. s),
       formatCardExpiry = (\<lambda>s. s),
       parseCardType = (\<lambda>s. case s of [] \<Rightarrow> None
                          | ch # _ \<Rightarrow> if ch = CHR ''4'' then Some ''visa''
                                     else if ch = CHR ''5'' then Some ''mastercard''
                                     else if ch = CHR ''3'' then Some ''amex'' else None),
       validateCardExpiry = (\<lambda>m y. 1 \<le> m \<and> m \<le> 12 \<and> 30 \<le> y),
       parseCardExpiry = sample_parse,
       isEmailValid = (\<lambda>s. CHR ''@'' \<in> set s),
       defaultMessage = (\<lambda>label c. label @ '': '' @ c) \<rparr>"

section \<open>Predicates used in the statements\<close>

text \<open>Exactly three characters, each a decimal digit.\<close>

definition three_digits :: "string \<Rightarrow> bool" where
  "three_digits s = (length s = 3 \<and> list_all is_digit s)"

text \<open>Every field of the values passes its schema.\<close>

definition all_valid :: "'n libs \<Rightarrow> bool \<Rightarrow> TypeCheckoutFormDefaultValues \<Rightarrow> bool" where
  "all_valid L abortEarly d =
     list_all (\<lambda>k. field_passes L abortEarly k (js (get_field k d))) [Email, CardNumber, CardExpire, Cvv]"

text \<open>The validator holds what the effect last pushed: the state between two events.\<close>

definition settled :: "'n libs \<Rightarrow> bool \<Rightarrow> component \<Rightarrow> bool" where
  "settled L abortEarly c = (state c = setData L abortEarly (models c) (state c))"

text \<open>The arguments of the calls of the success callback, in order.\<close>

fun onSuccess_calls :: "effect list \<Rightarrow> TypeCheckoutFormDefaultValues list" where
  "onSuccess_calls [] = []"
| "onSuccess_calls (PreventDefault # es) = onSuccess_calls es"
| "onSuccess_calls (OnSuccess d # es) = d # onSuccess_calls es"

text \<open>Four changes that fill the form, and the values they leave.\<close>

definition sample_events :: "event list" where
  "sample_events = [Change Email ''john@example.com'', Change CardNumber ''4242 4242 4242 4242'',
     Change CardExpire ''12/30'', Change Cvv ''123'']"

definition sample_values :: TypeCheckoutFormDefaultValues where
  "sample_values = \<lparr> email = Some ''john@example.com'', card_number = Some ''4242 4242 4242 4242'',
     card_expire = Some ''12/30'', cvv = Some ''123'' \<rparr>"

section \<open>Properties\<close>

subsection \<open>One field under its schema\<close>

lemma field_messages_single:
  assumes "s \<noteq> []" and "rules (schema_of L k) = [r]"
  shows "field_messages L ae k (JString s) =
     (case apply_rule L r s of
        Report c \<Rightarrow> [message (render_error L (key_name k) (schema_of L k) c)]
      | Value v' \<Rightarrow> [])"
  using assms
  by (simp add: field_messages_def validate_def validate_codes_def split: ret.splits jvalue.splits)

lemma field_passes_single:
  assumes "s \<noteq> []" and "rules (schema_of L k) = [r]"
  shows "field_passes L ae k (JString s) =
     (case apply_rule L r s of Report c \<Rightarrow> False | Value v' \<Rightarrow> True)"
  using assms
  by (simp add: field_passes_def validate_def validate_codes_def split: ret.splits jvalue.splits)

lemma messages_card_number:
  "map_of (messages (schema_of L CardNumber)) ''string.cardNumber'' = Some ''Must be a valid card''"
  "map_of (messages (schema_of L CardNumber)) ''string.wrongCardType'' = Some ''Wrong card number''"
  by (simp_all add: schema_of_def card_number_schema_def)

lemma messages_card_expire:
  "map_of (messages (schema_of L CardExpire)) ''string.wrong'' = Some ''Wrong date''"
  by (simp add: schema_of_def card_expire_schema_def)


lemma messages_cvv:
  "map_of (messages (schema_of L Cvv)) ''string.length'' = Some ''Need 3 digits''"
  by (simp add: schema_of_def cvv_schema_def)

lemma rules_card_number: "rules (schema_of L CardNumber) = [CustomRule (card_number_custom L)]"
  by (simp add: schema_of_def card_number_schema_def)

lemma rules_card_expire: "rules (schema_of L CardExpire) = [CustomRule (card_expire_custom L)]"
  by (simp add: schema_of_def card_expire_schema_def)


lemma rules_cvv: "rules (schema_of L Cvv) = [LengthRule 3]"
  by (simp add: schema_of_def cvv_schema_def)

text \<open>
  C4: a non-empty card number that \<open>validateCardNumber\<close> rejects gets exactly the
  message "Must be a valid card", whatever brand \<open>parseCardType\<close> reads from it.
\<close>

theorem card_number_invalid_message:
  assumes "s \<noteq> []" and "\<not> validateCardNumber L s"
  shows "field_messages L ae CardNumber (JString s) = [''Must be a valid card'']"
  using assms
  by (simp add: field_messages_single[OF _ rules_card_number]
      card_number_custom_def render_error_def messages_card_number)

theorem card_number_invalid_message_witness:
  "''4242 4242 4242 4241'' \<noteq> [] \<and> \<not> validateCardNumber sample_libs ''4242 4242 4242 4241''
   \<and> parseCardType sample_libs ''4242 4242 4242 4241'' = Some ''visa''
   \<and> field_messages sample_libs False CardNumber (JString ''4242 4242 4242 4241'') = [''Must be a valid card'']"
  using card_number_invalid_message[of "''4242 4242 4242 4241''" sample_libs False]
  by (simp add: sample_libs_def)

text \<open>
  C5: a non-empty card number that \<open>validateCardNumber\<close> accepts and whose parsed type
  is neither "mastercard" nor "visa" gets exactly the message "Wrong card number".
\<close>

theorem card_number_wrong_brand_message:
  assumes "s \<noteq> []" and "validateCardNumber L s"
    and "parseCardType L s \<noteq> Some ''mastercard''" and "parseCardType L s \<noteq> Some ''visa''"
  shows "field_messages L ae CardNumber (JString s) = [''Wrong card number'']"
  using assms
  by (simp add: field_messages_single[OF _ rules_card_number]
      card_number_custom_def render_error_def messages_card_number)

theorem card_number_wrong_brand_message_witness:
  "''3782 822463 10005'' \<noteq> [] \<and> validateCardNumber sample_libs ''3782 822463 10005''
   \<and> parseCardType sample_libs ''3782 822463 10005'' = Some ''amex''
   \<and> field_messages sample_libs False CardNumber (JString ''3782 822463 10005'') = [''Wrong card number'']"
  using card_number_wrong_brand_message[of "''3782 822463 10005''" sample_libs False]
  by (simp add: sample_libs_def)

text \<open>
  C6: a non-empty expiry string whose parsed month and year \<open>validateCardExpiry\<close>
  rejects gets exactly the message "Wrong date"; one whose parsed month and year it
  accepts passes.
\<close>

theorem card_expire_messages:
  assumes "s \<noteq> []"
  shows "(\<not> validateCardExpiry L (month (parseCardExpiry L s)) (year (parseCardExpiry L s))
            \<longrightarrow> field_messages L ae CardExpire (JString s) = [''Wrong date''])
       \<and> (validateCardExpiry L (month (parseCardExpiry L s)) (year (parseCardExpiry L s))
            \<longrightarrow> field_passes L ae CardExpire (JString s))"
  using assms
  by (simp add: field_messages_single[OF _ rules_card_expire] field_passes_single[OF _ rules_card_expire]
      card_expire_custom_def render_error_def messages_card_expire Let_def)

theorem card_expire_messages_witness:
  "\<not> validateCardExpiry sample_libs (month (parseCardExpiry sample_libs ''01/20'')) (year (parseCardExpiry sample_libs ''01/20''))
   \<and> field_messages sample_libs False CardExpire (JString ''01/20'') = [''Wrong date'']
   \<and> validateCardExpiry sample_libs (month (parseCardExpiry sample_libs ''12/30'')) (year (parseCardExpiry sample_libs ''12/30''))
   \<and> field_passes sample_libs False CardExpire (JString ''12/30'')"
  using card_expire_messages[of "''01/20''" sample_libs False]
    card_expire_messages[of "''12/30''" sample_libs False]
  by (simp add: sample_libs_def sample_parse_def digit_val_def)



lemma email_structure_sample: "email_structure ''john@example.com''"
  by (simp add: email_structure_def minDomainSegments_def)




text \<open>
  C3, as amended: the empty cvv string is rejected with "Required"; a non-empty cvv
  string of a length other than 3 is rejected with "Need 3 digits"; a string of exactly
  three digits passes; a string that passes has length 3.
\<close>

theorem cvv_length_rule:
  "(s = [] \<longrightarrow> field_messages L ae Cvv (JString s) = [''Required''])
   \<and> (s \<noteq> [] \<and> length s \<noteq> 3 \<longrightarrow> field_messages L ae Cvv (JString s) = [''Need 3 digits''])
   \<and> (three_digits s \<longrightarrow> field_passes L ae Cvv (JString s))
   \<and> (field_passes L ae Cvv (JString s) \<longrightarrow> length s = 3)"
proof (cases "s = []")
  case True
  then show ?thesis
    by (simp add: field_messages_def field_passes_def validate_def validate_codes_def
        render_error_def schema_of_def cvv_schema_def three_digits_def)
next
  case False
  then show ?thesis
    by (simp add: field_messages_single[OF _ rules_cvv] field_passes_single[OF _ rules_cvv]
      render_error_def messages_cvv three_digits_def)
qed

theorem cvv_length_rule_witness:
  "field_messages sample_libs False Cvv (JString '''') = [''Required'']
   \<and> field_messages sample_libs False Cvv (JString ''12'') = [''Need 3 digits'']
   \<and> field_messages sample_libs False Cvv (JString ''1234'') = [''Need 3 digits'']
   \<and> three_digits ''123'' \<and> field_passes sample_libs False Cvv (JString ''123'')"
  using cvv_length_rule[of "''''" sample_libs False] cvv_length_rule[of "''12''" sample_libs False]
    cvv_length_rule[of "''1234''" sample_libs False] cvv_length_rule[of "''123''" sample_libs False]
  by (simp add: three_digits_def is_digit_def)

text \<open>
  C3, as stated, fails: the three letters "abc" pass although they are not three digits,
  and the empty string, whose length is not 3, gets "Required", not "Need 3 digits".
\<close>

theorem cvv_three_digits_counterexample:
  "field_passes sample_libs False Cvv (JString ''abc'') \<and> \<not> three_digits ''abc''
   \<and> length '''' \<noteq> (3::nat) \<and> field_messages sample_libs False Cvv (JString '''') \<noteq> [''Need 3 digits'']"
  by (simp add: field_messages_def field_passes_def validate_def validate_codes_def
        render_error_def schema_of_def cvv_schema_def three_digits_def is_digit_def)

subsection \<open>The mounted form\<close>

lemma empty_field_error:
  "is_empty v \<Longrightarrow> snd (validate L ae label sch (js v)) \<noteq> []"
  by (auto simp: is_empty_def js_def validate_def validate_codes_def)

lemma validate_keys_empty_field:
  "is_empty (get_field k d) \<Longrightarrow> validate_keys L ae (checkout_schema L) d \<noteq> []"
  using empty_field_error[of "get_field k d" L ae]
  by (cases k) (auto simp: checkout_schema_def Let_def)

lemma validate_keys_all_valid:
  "all_valid L ae d \<Longrightarrow> validate_keys L ae (checkout_schema L) d = []"
  by (simp add: all_valid_def field_passes_def checkout_schema_def schema_of_def Let_def)

lemma settled_sync: "settled L ae (sync L ae c)"
  by (simp add: settled_def sync_def setData_def Let_def)

lemma settled_run: "settled L ae c \<Longrightarrow> settled L ae (run L ae evs c)"
proof (induction evs arbitrary: c)
  case Nil then show ?case by simp
next
  case (Cons e es)
  then show ?case by (cases e) (simp_all add: settled_sync)
qed

lemma settled_mount: "settled L ae (mount L ae)"
  by (simp add: mount_def settled_sync)

lemma data_setData: "data (setData L ae d vs) = d"
  by (simp add: setData_def Let_def)

lemma auto_invalid_setData:
  "auto_invalid (setData L ae d vs) = (validate_keys L ae (checkout_schema L) d \<noteq> [])"
  by (simp add: setData_def Let_def)

lemma errors_setData:
  "errors (setData L ae d vs) k =
     map snd (filter (\<lambda>ke. fst ke = k) (validate_keys L ae (checkout_schema L) d))"
  by (simp add: setData_def Let_def)

lemma settled_data: "settled L ae c \<Longrightarrow> data (state c) = models c"
  unfolding settled_def using data_setData by metis

lemma settled_auto_invalid:
  "settled L ae c \<Longrightarrow> auto_invalid (state c) = (validate_keys L ae (checkout_schema L) (models c) \<noteq> [])"
  unfolding settled_def using auto_invalid_setData by metis

lemma models_sync: "models (sync L ae c) = models c"
  by (simp add: sync_def)

lemma models_onChange:
  "models (onChange L k v c) =
     set_field k (Some (case k of CardNumber \<Rightarrow> formatCardNumber L v
                        | CardExpire \<Rightarrow> formatCardExpiry L v | _ \<Rightarrow> v)) (models c)"
  by (cases k) (simp_all add: updateModel_def formatter_cardNumber_def formatter_cardExpire_def)

lemma models_mount: "models (mount L ae) = defaultState"
  by (simp add: mount_def sync_def)

lemma models_handle_change:
  "models (fst (handle L ae (Change k v) c)) =
     set_field k (Some (case k of CardNumber \<Rightarrow> formatCardNumber L v
                        | CardExpire \<Rightarrow> formatCardExpiry L v | _ \<Rightarrow> v)) (models c)"
  by (simp add: models_sync models_onChange)

lemma sample_format: "formatCardNumber sample_libs s = s" "formatCardExpiry sample_libs s = s"
  by (simp_all add: sample_libs_def)

lemma models_sample_run: "models (run sample_libs False sample_events (mount sample_libs False)) = sample_values"
  by (simp add: sample_events_def sample_values_def models_handle_change models_mount
      defaultState_def sample_format del: handle.simps)

lemma all_valid_sample: "all_valid sample_libs False sample_values"
  by (simp add: all_valid_def sample_values_def field_passes_def validate_def validate_codes_def
      schema_of_def email_schema_def card_number_schema_def card_expire_schema_def cvv_schema_def
      card_number_custom_def card_expire_custom_def js_def sample_libs_def sample_parse_def
      digit_val_def Let_def address_valid_def email_structure_def minDomainSegments_def)

text \<open>
  C1: in a state reached from the mounted form by any events, with every field passing
  its schema, a submit event calls the success callback exactly once, its argument is
  the current field values, these are the values the validator holds, and the validator
  does not report the form invalid.
\<close>

theorem submit_valid_calls_onSuccess_once:
  assumes "c = run L ae evs (mount L ae)" and "all_valid L ae (models c)"
  shows "onSuccess_calls (snd (handle L ae Submit c)) = [models c]
       \<and> data (state c) = models c
       \<and> \<not> auto_invalid (state c)"
proof -
  have s: "settled L ae c" using assms(1) by (simp add: settled_run settled_mount)
  show ?thesis
    using settled_data[OF s] settled_auto_invalid[OF s] validate_keys_all_valid[OF assms(2)]
    by (simp add: onSubmit_def)
qed

theorem submit_valid_calls_onSuccess_once_witness:
  "all_valid sample_libs False (models (run sample_libs False sample_events (mount sample_libs False)))
   \<and> onSuccess_calls (snd (handle sample_libs False Submit
        (run sample_libs False sample_events (mount sample_libs False)))) = [sample_values]"
  using submit_valid_calls_onSuccess_once[OF refl, of sample_libs False sample_events]
    all_valid_sample
  by (simp add: models_sample_run)

text \<open>
  C2: in a state reached from the mounted form by any events, if one of the four fields
  is empty the submit button is disabled. The errors and the invalid flag of the
  validator do not reach the submit handler, and pushing the values into the validator
  leaves the model as it is.
\<close>

theorem empty_field_disables_submit:
  assumes "c = run L ae evs (mount L ae)" and "is_empty (get_field k (models c))"
  shows "Button_disabled P c
       \<and> onSubmit (c\<lparr>state := (state c)\<lparr>errors := e, auto_invalid := b\<rparr>\<rparr>) = onSubmit c
       \<and> models (sync L ae c) = models c"
proof -
  have s: "settled L ae c" using assms(1) by (simp add: settled_run settled_mount)
  show ?thesis
    using settled_auto_invalid[OF s] validate_keys_empty_field[OF assms(2), of L ae]
    by (simp add: Button_disabled_def onSubmit_def models_sync)
qed

theorem empty_field_disables_submit_witness:
  "is_empty (get_field Cvv (models (run sample_libs False [Change Email ''john@example.com'', Change Cvv []] (mount sample_libs False))))
   \<and> Button_disabled \<lparr> loading = False, submitText = ''Submit'' \<rparr>
        (run sample_libs False [Change Email ''john@example.com'', Change Cvv []] (mount sample_libs False))"
  using empty_field_disables_submit[OF refl, of Cvv sample_libs False "[Change Email ''john@example.com'', Change Cvv []]"
      "\<lparr> loading = False, submitText = ''Submit'' \<rparr>"]
  by (simp add: models_handle_change models_mount defaultState_def is_empty_def del: handle.simps)

text \<open>
  C8: after a change of any field, from any state, the validator holds the new model
  (the field set to the value typed, formatted for the two card fields), and its errors
  and its invalid flag are those of the schema on the new model.
\<close>

theorem change_syncs_validator:
  "data (state (fst (handle L ae (Change k v) c))) = models (fst (handle L ae (Change k v) c))
   \<and> models (fst (handle L ae (Change k v) c)) =
       set_field k (Some (case k of CardNumber \<Rightarrow> formatCardNumber L v
                        | CardExpire \<Rightarrow> formatCardExpiry L v | _ \<Rightarrow> v)) (models c)
   \<and> errors (state (fst (handle L ae (Change k v) c))) f =
       map snd (filter (\<lambda>ke. fst ke = f)
         (validate_keys L ae (checkout_schema L) (models (fst (handle L ae (Change k v) c)))))
   \<and> auto_invalid (state (fst (handle L ae (Change k v) c))) =
       (validate_keys L ae (checkout_schema L) (models (fst (handle L ae (Change k v) c))) \<noteq> [])"
  by (simp add: models_sync models_onChange sync_def data_setData errors_setData auto_invalid_setData
      del: onChange.simps)

theorem change_syncs_validator_witness:
  "data (state (fst (handle sample_libs False (Change Cvv ''12'') (mount sample_libs False))))
     = defaultState\<lparr>cvv := Some ''12''\<rparr>
   \<and> map message (errors (state (fst (handle sample_libs False (Change Cvv ''12'') (mount sample_libs False)))) Cvv)
     = [''Need 3 digits'']"
  using change_syncs_validator[of sample_libs False Cvv "''12''" "mount sample_libs False" Cvv]
  by (simp add: models_mount checkout_schema_def validate_def validate_codes_def js_def
      defaultState_def Let_def render_error_def cvv_schema_def)

text \<open>
  C9: the submit handler calls the success callback with the validator's data in every
  state; the button is disabled exactly when the validator reports the form invalid or
  the form is loading. On the freshly mounted form, all fields null, the handler still
  calls the callback although the button is disabled.
\<close>

theorem onSubmit_unconditional:
  "snd (handle L ae Submit c) = [PreventDefault, OnSuccess (data (state c))]
   \<and> onSuccess_calls (onSubmit c) = [data (state c)]
   \<and> Button_disabled P c = (auto_invalid (state c) \<or> loading P)
   \<and> onSuccess_calls (snd (handle L ae Submit (mount L ae))) = [defaultState]
   \<and> Button_disabled P (mount L ae)"
proof -
  have "is_empty (get_field Email (models (mount L ae)))"
    by (simp add: models_mount defaultState_def is_empty_def)
  then have "auto_invalid (state (mount L ae))"
    using settled_auto_invalid[OF settled_mount] validate_keys_empty_field by metis
  moreover have "data (state (mount L ae)) = defaultState"
    using settled_data[OF settled_mount] by (simp add: models_mount)
  ultimately show ?thesis
    by (simp add: onSubmit_def Button_disabled_def)
qed

theorem onSubmit_unconditional_witness:
  "onSuccess_calls (snd (handle sample_libs False Submit (mount sample_libs False)))
     = [\<lparr> email = None, card_number = None, card_expire = None, cvv = None \<rparr>]
   \<and> Button_disabled \<lparr> loading = False, submitText = ''Submit'' \<rparr> (mount sample_libs False)"
  using onSubmit_unconditional[of sample_libs False "mount sample_libs False" "\<lparr> loading = False, submitText = ''Submit'' \<rparr>"]
  by (simp add: defaultState_def onSubmit_def Button_disabled_def)

text \<open>
  C10, as amended: for an expiry string that passes the expiry check the custom rule
  returns undefined, so the schema's validated value is undefined; the data the
  validator holds, and hands to the success callback, is the model pushed by the effect,
  whose expiry entry is the formatted string entered.
\<close>

theorem card_expire_custom_returns_undefined:
  assumes "s \<noteq> []"
    and "validateCardExpiry L (month (parseCardExpiry L s)) (year (parseCardExpiry L s))"
    and "formatCardExpiry L target_value = s"
  shows "card_expire_custom L s = Value JUndefined
       \<and> validate L ae (key_name CardExpire) (card_expire_schema L) (JString s) = (JUndefined, [])
       \<and> card_expire (data (state (fst (handle L ae (Change CardExpire target_value) c)))) = Some s
       \<and> onSuccess_calls (onSubmit (fst (handle L ae (Change CardExpire target_value) c)))
           = [(models c)\<lparr>card_expire := Some s\<rparr>]"
  using assms
  by (simp add: card_expire_custom_def Let_def validate_def validate_codes_def card_expire_schema_def
      onSubmit_def sync_def data_setData formatter_cardExpire_def updateModel_def)

theorem card_expire_custom_returns_undefined_witness:
  "validateCardExpiry sample_libs (month (parseCardExpiry sample_libs ''12/30'')) (year (parseCardExpiry sample_libs ''12/30''))
   \<and> card_expire_custom sample_libs ''12/30'' = Value JUndefined
   \<and> onSuccess_calls (onSubmit (fst (handle sample_libs False (Change CardExpire ''12/30'') (mount sample_libs False))))
           = [defaultState\<lparr>card_expire := Some ''12/30''\<rparr>]"
  using card_expire_custom_returns_undefined[of "''12/30''" sample_libs "''12/30''" False "mount sample_libs False"]
  by (simp add: sample_libs_def sample_parse_def digit_val_def models_mount)

text \<open>
  C10, as stated, fails: after "12/30" is entered, which passes, the expiry entry of
  the validator's data, handed to the callback, is the string "12/30".
\<close>

theorem card_expire_data_counterexample:
  "field_passes sample_libs False CardExpire (JString ''12/30'')
   \<and> card_expire (data (state (fst (handle sample_libs False (Change CardExpire ''12/30'') (mount sample_libs False)))))
       = Some ''12/30''
   \<and> onSubmit (fst (handle sample_libs False (Change CardExpire ''12/30'') (mount sample_libs False)))
       = [PreventDefault, OnSuccess \<lparr> email = None, card_number = None, card_expire = Some ''12/30'', cvv = None \<rparr>]"
  by (simp add: field_passes_def validate_def validate_codes_def schema_of_def card_expire_schema_def
      card_expire_custom_def Let_def sample_libs_def sample_parse_def digit_val_def
      onSubmit_def sync_def data_setData formatter_cardExpire_def updateModel_def models_mount defaultState_def)

end
